theory Spec2Isabelle
  imports Complex_Main "HOL-Library.Sublist"
begin

section \<open>Python strings\<close>

text \<open>
  The script \<^verbatim>\<open>scripts/import_inventory.py\<close> reads spreadsheet cells as Python
  strings. A cell is modelled as a \<^typ>\<open>string\<close>; the built-in string methods the
  script calls are modelled on ASCII text, where they are exact. Characters outside ASCII
  are kept as they are, neither white space nor letters nor digits.
\<close>

definition is_space :: "char \<Rightarrow> bool" where
  \<comment> \<open>the ASCII characters \<^verbatim>\<open>str.strip()\<close> removes: TAB, LF, VT, FF, CR, FS, GS, RS, US and the blank\<close>
  "is_space c = (c \<in> set [CHR 0x09, CHR 0x0A, CHR 0x0B, CHR 0x0C, CHR 0x0D,
                            CHR 0x1C, CHR 0x1D, CHR 0x1E, CHR 0x1F, CHR 0x20])"

definition strip :: "string \<Rightarrow> string" where
  \<comment> \<open>\<^verbatim>\<open>s.strip()\<close>\<close>
  "strip s = rev (dropWhile is_space (rev (dropWhile is_space s)))"

definition rstrip :: "char \<Rightarrow> string \<Rightarrow> string" where
  \<comment> \<open>\<^verbatim>\<open>s.rstrip(c)\<close> for a one-character argument: every trailing \<open>c\<close> goes\<close>
  "rstrip c s = rev (dropWhile (\<lambda>x. x = c) (rev s))"

definition replace_char :: "char \<Rightarrow> string \<Rightarrow> string" where
  \<comment> \<open>\<^verbatim>\<open>s.replace(c, '')\<close> for a one-character \<open>c\<close>\<close>
  "replace_char c s = filter (\<lambda>x. x \<noteq> c) s"

definition upper_char :: "char \<Rightarrow> char" where
  "upper_char c =
     (case map_of (zip ''abcdefghijklmnopqrstuvwxyz'' ''ABCDEFGHIJKLMNOPQRSTUVWXYZ'') c of
        None \<Rightarrow> c | Some u \<Rightarrow> u)"

definition lower_char :: "char \<Rightarrow> char" where
  "lower_char c =
     (case map_of (zip ''ABCDEFGHIJKLMNOPQRSTUVWXYZ'' ''abcdefghijklmnopqrstuvwxyz'') c of
        None \<Rightarrow> c | Some l \<Rightarrow> l)"

definition upper :: "string \<Rightarrow> string" where
  "upper s = map upper_char s"

definition lower :: "string \<Rightarrow> string" where
  "lower s = map lower_char s"

definition re_sub_prefix :: "string list \<Rightarrow> string \<Rightarrow> string" where
  \<comment> \<open>\<^verbatim>\<open>re.sub('^(p1|p2|...)', '', s)\<close> for literal alternatives tried in order: the
     pattern is anchored at the start of the text and no flag is given, so the first
     alternative that is a prefix of \<open>s\<close>, compared character by character, is cut off once\<close>
  "re_sub_prefix ps s =
     (case filter (\<lambda>p. prefix p s) ps of [] \<Rightarrow> s | p # _ \<Rightarrow> drop (length p) s)"

definition contains :: "string \<Rightarrow> string \<Rightarrow> bool" where
  \<comment> \<open>\<^verbatim>\<open>needle in haystack\<close> on strings\<close>
  "contains needle haystack = list_ex (prefix needle) (suffixes haystack)"

section \<open>Python numbers read from text\<close>

definition is_digit :: "char \<Rightarrow> bool" where
  "is_digit c = (c \<in> set ''0123456789'')"

definition digit_val :: "char \<Rightarrow> nat" where
  "digit_val c = of_char c - 48"

definition digits_val :: "string \<Rightarrow> nat" where
  \<comment> \<open>the number a run of decimal digits denotes\<close>
  "digits_val ds = foldl (\<lambda>a c. 10 * a + digit_val c) 0 ds"

fun digitpart :: "string \<Rightarrow> bool" where
  \<comment> \<open>Python's \<^verbatim>\<open>digitpart ::= digit (["_"] digit)*\<close>\<close>
  "digitpart [] = False"
| "digitpart [c] = is_digit c"
| "digitpart (c # d # cs) =
     (is_digit c \<and> (if d = CHR ''_'' then digitpart cs else digitpart (d # cs)))"

definition is_num_space :: "char \<Rightarrow> bool" where
  \<comment> \<open>the ASCII white space \<^verbatim>\<open>int()\<close> and \<^verbatim>\<open>float()\<close> accept around a literal\<close>
  "is_num_space c = (c \<in> set [CHR 0x09, CHR 0x0A, CHR 0x0B, CHR 0x0C, CHR 0x0D, CHR 0x20])"

definition num_strip :: "string \<Rightarrow> string" where
  "num_strip s = rev (dropWhile is_num_space (rev (dropWhile is_num_space s)))"

fun split_sign :: "string \<Rightarrow> bool \<times> string" where
  \<comment> \<open>an optional sign: whether it is a minus, and the text after it\<close>
  "split_sign [] = (False, [])"
| "split_sign (c # cs) =
     (if c = CHR ''-'' then (True, cs) else if c = CHR ''+'' then (False, cs) else (False, c # cs))"

definition signed_digits :: "string \<Rightarrow> int option" where
  \<comment> \<open>an optional sign and a \<open>digitpart\<close>; \<open>None\<close> on any other text\<close>
  "signed_digits s =
     (let (neg, body) = split_sign s in
      if digitpart body
      then (let n = int (digits_val (filter is_digit body)) in Some (if neg then - n else n))
      else None)"

definition py_int :: "string \<Rightarrow> int option" where
  \<comment> \<open>\<^verbatim>\<open>int(s)\<close> on a string, base 10: white space around, an optional sign, digits with
     single underscores between them. \<open>None\<close> stands for the ValueError it raises on any
     other text. (Interpreters that cap the length of such literals raise the same
     ValueError on longer ones.)\<close>
  "py_int s = signed_digits (num_strip s)"

subsection \<open>Floats\<close>

text \<open>
  A Python float is an IEEE 754 binary64 number: a sign with a magnitude that is a
  rational of the form \<open>m * 2 ^ e\<close> with \<open>m < 2 ^ 53\<close> and \<open>- 1074 \<le> e\<close>, an infinity, or
  not-a-number. Reading a literal and multiplying give the representable number nearest
  to the exact result, ties going to the even mantissa, and an infinity beyond the range.
\<close>

datatype pyfloat = Finite bool rat | Infinite bool | NaN

definition pow2 :: "int \<Rightarrow> rat" where
  "pow2 e = (if 0 \<le> e then 2 ^ nat e else 1 / 2 ^ nat (- e))"

definition pow10 :: "int \<Rightarrow> rat" where
  "pow10 e = (if 0 \<le> e then 10 ^ nat e else 1 / 10 ^ nat (- e))"

fun bit_length :: "nat \<Rightarrow> nat" where
  "bit_length n = (if n = 0 then 0 else Suc (bit_length (n div 2)))"

declare bit_length.simps [simp del]

definition floor_log2 :: "rat \<Rightarrow> int" where
  \<comment> \<open>for \<open>0 < q\<close>: the \<open>e\<close> with \<open>2 ^ e \<le> q < 2 ^ (e + 1)\<close>\<close>
  "floor_log2 q =
     (if 1 \<le> q then int (bit_length (nat \<lfloor>q\<rfloor>)) - 1
      else - int (bit_length (nat (\<lceil>1 / q\<rceil> - 1))))"

definition round_half_even :: "rat \<Rightarrow> int" where
  "round_half_even q =
     (let f = \<lfloor>q\<rfloor>; d = q - of_int f
      in if d < 1 / 2 then f else if 1 / 2 < d then f + 1 else if even f then f else f + 1)"

definition round_double :: "rat \<Rightarrow> rat option" where
  \<comment> \<open>the binary64 magnitude nearest to \<open>q \<ge> 0\<close>; \<open>None\<close> when it is beyond the range\<close>
  "round_double q =
     (if q = 0 then Some 0
      else let e = max (floor_log2 q) (- 1022);
               u = pow2 (e - 52);
               r = of_int (round_half_even (q / u)) * u
           in if pow2 1024 \<le> r then None else Some r)"

definition to_float :: "bool \<Rightarrow> rat \<Rightarrow> pyfloat" where
  "to_float neg q = (case round_double q of None \<Rightarrow> Infinite neg | Some r \<Rightarrow> Finite neg r)"

definition is_exp_char :: "char \<Rightarrow> bool" where
  "is_exp_char c = (c = CHR ''e'' \<or> c = CHR ''E'')"

definition floatnumber :: "string \<Rightarrow> rat option" where
  \<comment> \<open>Python's \<^verbatim>\<open>floatnumber ::= ([digitpart] "." digitpart | digitpart ["."]) [exponent]\<close>
     with \<^verbatim>\<open>exponent ::= ("e" | "E") [sign] digitpart\<close>: the exact value it denotes\<close>
  "floatnumber s =
     (let mant = takeWhile (\<lambda>c. \<not> is_exp_char c) s;
          rest = dropWhile (\<lambda>c. \<not> is_exp_char c) s;
          ip = takeWhile (\<lambda>c. c \<noteq> CHR ''.'') mant;
          fp = drop 1 (dropWhile (\<lambda>c. c \<noteq> CHR ''.'') mant);
          mant_ok = (if CHR ''.'' \<in> set mant
                     then (ip = [] \<and> digitpart fp) \<or> (digitpart ip \<and> (fp = [] \<or> digitpart fp))
                     else digitpart ip);
          ex = (if rest = [] then Some 0 else signed_digits (tl rest))
      in if mant_ok
         then (case ex of
                 None \<Rightarrow> None
               | Some e \<Rightarrow>
                   Some (of_nat (digits_val (filter is_digit (ip @ fp)))
                         * pow10 (e - int (length (filter is_digit fp)))))
         else None)"

definition py_float :: "string \<Rightarrow> pyfloat option" where
  \<comment> \<open>\<^verbatim>\<open>float(s)\<close> on a string: white space around, an optional sign, then \<open>inf\<close>,
     \<open>infinity\<close> or \<open>nan\<close> in any letter case, or a decimal literal. \<open>None\<close> stands for the
     ValueError it raises on any other text.\<close>
  "py_float s =
     (let (neg, body) = split_sign (num_strip s); l = lower body
      in if l = ''inf'' \<or> l = ''infinity'' then Some (Infinite neg)
         else if l = ''nan'' then Some NaN
         else map_option (to_float neg) (floatnumber body))"

fun float_mul :: "pyfloat \<Rightarrow> pyfloat \<Rightarrow> pyfloat" where
  \<comment> \<open>\<^verbatim>\<open>a * b\<close> on floats\<close>
  "float_mul (Finite s p) (Finite t q) = to_float (s \<noteq> t) (p * q)"
| "float_mul (Finite s p) (Infinite t) = (if p = 0 then NaN else Infinite (s \<noteq> t))"
| "float_mul (Infinite s) (Finite t q) = (if q = 0 then NaN else Infinite (s \<noteq> t))"
| "float_mul (Infinite s) (Infinite t) = Infinite (s \<noteq> t)"
| "float_mul NaN b = NaN"
| "float_mul a NaN = NaN"

fun int_of_float :: "pyfloat \<Rightarrow> int option" where
  \<comment> \<open>\<^verbatim>\<open>int(x)\<close> on a float truncates towards zero; \<open>None\<close> stands for the OverflowError
     it raises on an infinity and the ValueError on not-a-number\<close>
  "int_of_float (Finite neg q) = Some (if neg then - \<lfloor>q\<rfloor> else \<lfloor>q\<rfloor>)"
| "int_of_float (Infinite neg) = None"
| "int_of_float NaN = None"

section \<open>The field normalizers\<close>

definition clean_website :: "string \<Rightarrow> string option" where
  "clean_website url =
     (if url = [] then None
      else Some (rstrip (CHR ''/'')
              (re_sub_prefix [''www.'']
                (re_sub_prefix [''https://'', ''http://''] url))))"

definition parse_int :: "string \<Rightarrow> int option" where
  "parse_int val = (if val = [] \<or> strip val = [] then None else py_int val)"

datatype pyval = VStr string | VInt int | VFloat pyfloat | VBool bool

definition parse_price :: "string \<Rightarrow> pyval" where
  \<comment> \<open>the blank and the failure branch return the int \<open>0\<close>, the other one a float\<close>
  "parse_price price_str =
     (if price_str = [] \<or> strip price_str = [] then VInt 0
      else let cleaned = strip (replace_char (CHR '','') (replace_char (CHR ''$'') price_str))
           in case py_float cleaned of None \<Rightarrow> VInt 0 | Some x \<Rightarrow> VFloat x)"

definition scaled_int :: "string \<Rightarrow> char \<Rightarrow> rat \<Rightarrow> int option" where
  \<comment> \<open>\<^verbatim>\<open>int(float(cleaned.replace(c, '')) * k)\<close>; \<open>None\<close> when \<^verbatim>\<open>float\<close> or \<^verbatim>\<open>int\<close> raises\<close>
  "scaled_int cleaned c k =
     (case py_float (replace_char c cleaned) of
        None \<Rightarrow> None
      | Some x \<Rightarrow> int_of_float (float_mul x (Finite False k)))"

definition parse_traffic :: "string \<Rightarrow> int" where
  "parse_traffic traffic_str =
     (if traffic_str = [] \<or> strip traffic_str = [] then 0
      else let cleaned = strip (replace_char (CHR '','') (upper traffic_str));
               body = (if CHR ''K'' \<in> set cleaned then scaled_int cleaned (CHR ''K'') 1000
                       else if CHR ''M'' \<in> set cleaned then scaled_int cleaned (CHR ''M'') 1000000
                       else (case py_float cleaned of None \<Rightarrow> None | Some x \<Rightarrow> int_of_float x))
           in case body of None \<Rightarrow> 0 | Some n \<Rightarrow> n)"

definition parse_bool :: "string \<Rightarrow> bool" where
  "parse_bool val =
     (if val = [] then False else lower (strip val) \<in> set [''yes'', ''true'', ''1''])"

definition parse_dofollow :: "string \<Rightarrow> bool" where
  "parse_dofollow val =
     (if val = [] then True
      else let v = lower (strip val)
           in if v \<in> set [''yes'', ''true'', ''1''] then True
              else if v \<in> set [''no'', ''nofollow'', ''false'', ''0'', ''-''] then False
              else True)"

section \<open>Building the INSERT statement\<close>

text \<open>
  A raw row is the dict \<^verbatim>\<open>csv.DictReader\<close> yields for one line of the spreadsheet:
  column names mapped to cell texts.
\<close>

type_synonym row = "string \<rightharpoonup> string"

definition row_get :: "row \<Rightarrow> string \<Rightarrow> string \<Rightarrow> string" where
  \<comment> \<open>\<^verbatim>\<open>row.get(key, default)\<close>\<close>
  "row_get r k d = (case r k of None \<Rightarrow> d | Some v \<Rightarrow> v)"

definition or_None :: "string \<Rightarrow> pyval option" where
  \<comment> \<open>\<^verbatim>\<open>text or None\<close>: the empty string is falsy\<close>
  "or_None t = (if t = [] then None else Some (VStr t))"

definition build_data :: "string \<Rightarrow> row \<Rightarrow> (string \<times> pyval option) list" where
  \<comment> \<open>the dict \<^verbatim>\<open>data\<close>, in its insertion order; \<open>None\<close> is Python's \<^verbatim>\<open>None\<close>\<close>
  "build_data website r =
     [(''website'', Some (VStr website)),
      (''contact'', or_None (strip (row_get r ''Contact'' []))),
      (''category'', or_None (strip (row_get r ''Category/Section'' []))),
      (''da'', map_option VInt (parse_int (row_get r ''DA'' []))),
      (''domain_rating'', map_option VInt (parse_int (row_get r ''AS'' []))),
      (''organic_traffic'', Some (VInt (parse_traffic (row_get r ''New OT'' [])))),
      (''client_price'', Some (parse_price (row_get r ''Price'' []))),
      (''is_indexed'', Some (VBool (parse_bool (row_get r ''Indexed'' [])))),
      (''do_follow'', Some (VBool (parse_dofollow (row_get r ''Do Follow'' [])))),
      (''news'', Some (VBool (parse_bool (row_get r ''News'' [])))),
      (''sponsored'', Some (VBool (parse_bool (row_get r ''Sponsored'' [])))),
      (''cbd'', Some (VBool (parse_bool (row_get r ''CBD'' [])))),
      (''casino'', Some (VBool (parse_bool (row_get r ''Casino'' [])))),
      (''dating'', Some (VBool (parse_bool (row_get r ''Dating'' [])))),
      (''crypto'', Some (VBool (parse_bool (row_get r ''Crypto'' [])))),
      (''tat'', map_option VInt (parse_int (row_get r ''TAT'' []))),
      (''status'', Some (VStr ''active''))]"

definition fields_of :: "(string \<times> pyval option) list \<Rightarrow> string list" where
  \<comment> \<open>\<^verbatim>\<open>[k for k, v in data.items() if v is not None]\<close>\<close>
  "fields_of data = map fst (filter (\<lambda>(k, v). v \<noteq> None) data)"

definition values_of :: "(string \<times> pyval option) list \<Rightarrow> pyval list" where
  \<comment> \<open>\<^verbatim>\<open>[v for v in data.values() if v is not None]\<close>\<close>
  "values_of data = concat (map (\<lambda>(k, v). case v of None \<Rightarrow> [] | Some x \<Rightarrow> [x]) data)"

definition digit_char :: "nat \<Rightarrow> char" where
  \<comment> \<open>the character of a digit \<open>d < 10\<close>\<close>
  "digit_char d = ''0123456789'' ! d"

fun str_nat :: "nat \<Rightarrow> string" where
  \<comment> \<open>\<^verbatim>\<open>str(n)\<close> of a natural number\<close>
  "str_nat n = (if n < 10 then [digit_char n] else str_nat (n div 10) @ [digit_char (n mod 10)])"

declare str_nat.simps [simp del]

definition placeholders :: "nat \<Rightarrow> string list" where
  \<comment> \<open>\<^verbatim>\<open>[f'${i+1}' for i in range(n)]\<close>\<close>
  "placeholders n = map (\<lambda>i. ''$'' @ str_nat (i + 1)) [0..<n]"

fun join :: "string \<Rightarrow> string list \<Rightarrow> string" where
  \<comment> \<open>\<^verbatim>\<open>sep.join(xs)\<close>\<close>
  "join sep [] = []"
| "join sep [x] = x"
| "join sep (x # y # ys) = x @ sep @ join sep (y # ys)"

record request =
  sql :: string
  params :: "pyval list"

definition build_request :: "(string \<times> pyval option) list \<Rightarrow> request" where
  \<comment> \<open>the JSON body \<^verbatim>\<open>{'sql': sql, 'params': values}\<close> of the POST\<close>
  "build_request data =
     \<lparr>sql = ''INSERT INTO website_inventory ('' @ join '', '' (fields_of data)
              @ '') VALUES ('' @ join '', '' (placeholders (length (fields_of data)))
              @ '') ON CONFLICT (website) DO NOTHING RETURNING id, website'',
      params = values_of data\<rparr>"

section \<open>The query endpoint and its answers\<close>

text \<open>
  The JSON object the endpoint answers with. Each member may be missing, as the code
  reads all but \<open>rows\<close> with \<^verbatim>\<open>dict.get\<close>. A returned row is a dict of column values.
\<close>

type_synonym returned_row = "(string \<times> pyval) list"

record reply =
  success :: "bool option"
  rowCount :: "int option"
  rows :: "returned_row list option"
  error :: "string option"

text \<open>
  What one POST comes to: an exception inside the \<^verbatim>\<open>try\<close> block (from
  \<^verbatim>\<open>requests.post\<close> or from \<^verbatim>\<open>response.json()\<close>), carried as its text
  \<^verbatim>\<open>str(e)\<close>, or a decoded reply.
\<close>

datatype outcome = Raised string | Replied reply

type_synonym result = "returned_row option \<times> string option"

definition read_reply :: "reply \<Rightarrow> string + result" where
  \<comment> \<open>the statements after \<^verbatim>\<open>result = response.json()\<close>; \<open>Inl\<close> is the text of the
     KeyError or IndexError that \<^verbatim>\<open>result['rows'][0]\<close> raises\<close>
  "read_reply r =
     (if success r = Some True
      then (if 0 < (case rowCount r of None \<Rightarrow> 0 | Some n \<Rightarrow> n)
            then (case rows r of
                    None \<Rightarrow> Inl ([CHR 0x27] @ ''rows'' @ [CHR 0x27])
                  | Some [] \<Rightarrow> Inl ''list index out of range''
                  | Some (x # xs) \<Rightarrow> Inr (Some x, None))
            else Inr (None, Some ''Duplicate (skipped)''))
      else Inr (None, Some (case error r of None \<Rightarrow> ''Unknown error'' | Some e \<Rightarrow> e)))"

definition classify :: "outcome \<Rightarrow> result" where
  \<comment> \<open>the \<^verbatim>\<open>try ... except Exception as e: return None, str(e)\<close> around the POST\<close>
  "classify out =
     (case out of
        Raised e \<Rightarrow> (None, Some e)
      | Replied r \<Rightarrow> (case read_reply r of Inl e \<Rightarrow> (None, Some e) | Inr res \<Rightarrow> res))"

text \<open>
  The endpoint is outside the program: \<open>endpoint k req\<close> is what the \<open>k\<close>-th POST of a
  run comes to when it sends \<open>req\<close>. A run is sequential, so every behaviour of the
  remote service during one run is such a function.
\<close>

type_synonym endpoint = "nat \<Rightarrow> request \<Rightarrow> outcome"

definition insert_website :: "endpoint \<Rightarrow> nat \<Rightarrow> row \<Rightarrow> result \<times> nat" where
  \<comment> \<open>returns the pair the code returns, and the number of POSTs made so far\<close>
  "insert_website ep k r =
     (case clean_website (row_get r ''Magazines'' []) of
        None \<Rightarrow> ((None, Some ''No website URL''), k)
      | Some website \<Rightarrow>
          if website = [] then ((None, Some ''No website URL''), k)
          else (classify (ep k (build_request (build_data website r))), Suc k))"

section \<open>The submission driver\<close>

datatype pause = Pacing | Cooldown
  \<comment> \<open>\<^verbatim>\<open>time.sleep(0.7)\<close> before each row, \<^verbatim>\<open>time.sleep(60)\<close> after a rate-limited attempt\<close>

record run =
  success_count :: nat
  skip_count :: nat
  error_count :: nat
  errors :: "string list"
  posts :: nat
  pauses :: "pause list"

definition rate_limited :: "string option \<Rightarrow> bool" where
  \<comment> \<open>\<^verbatim>\<open>error and 'Too many requests' in error\<close>\<close>
  "rate_limited err =
     (case err of None \<Rightarrow> False | Some e \<Rightarrow> e \<noteq> [] \<and> contains ''Too many requests'' e)"

fun attempts :: "nat \<Rightarrow> endpoint \<Rightarrow> row \<Rightarrow> result \<Rightarrow> nat \<Rightarrow> pause list
                  \<Rightarrow> result \<times> nat \<times> pause list" where
  \<comment> \<open>\<^verbatim>\<open>for attempt in range(n)\<close>: \<open>prev\<close> holds \<^verbatim>\<open>result, error\<close>, \<open>k\<close> counts the
     POSTs and \<open>ps\<close> collects the pauses\<close>
  "attempts 0 ep r prev k ps = (prev, k, ps)"
| "attempts (Suc n) ep r prev k ps =
     (let (res, k') = insert_website ep k r in
      if rate_limited (snd res) then attempts n ep r res k' (ps @ [Cooldown])
      else (res, k', ps))"

definition retries :: nat where
  "retries = 3"

definition truthy :: "returned_row option \<Rightarrow> bool" where
  \<comment> \<open>\<^verbatim>\<open>if result:\<close> on \<^verbatim>\<open>None\<close> or a dict\<close>
  "truthy res = (case res of None \<Rightarrow> False | Some d \<Rightarrow> d \<noteq> [])"

definition error_line :: "nat \<Rightarrow> row \<Rightarrow> string option \<Rightarrow> string" where
  \<comment> \<open>\<^verbatim>\<open>f"Row {i+1} ({row.get('Magazines', 'unknown')}): {error}"\<close>\<close>
  "error_line i r err =
     ''Row '' @ str_nat (i + 1) @ '' ('' @ row_get r ''Magazines'' ''unknown'' @ ''): ''
       @ (case err of None \<Rightarrow> ''None'' | Some e \<Rightarrow> e)"

definition blank_website :: "row \<Rightarrow> bool" where
  \<comment> \<open>\<^verbatim>\<open>not row.get('Magazines') or row.get('Magazines', '').strip() == ''\<close>\<close>
  "blank_website r =
     ((case r ''Magazines'' of None \<Rightarrow> True | Some v \<Rightarrow> v = [])
      \<or> strip (row_get r ''Magazines'' []) = [])"

definition process_row :: "endpoint \<Rightarrow> int \<Rightarrow> run \<Rightarrow> nat \<times> row \<Rightarrow> run" where
  \<comment> \<open>the body of \<^verbatim>\<open>for i, row in enumerate(rows)\<close>\<close>
  "process_row ep start_from st ir =
     (let (i, r) = ir in
      if int i < start_from then st
      else let st1 = st\<lparr>pauses := pauses st @ [Pacing]\<rparr> in
        if blank_website r then st1\<lparr>skip_count := skip_count st1 + 1\<rparr>
        else let ((res, err), k, ps) = attempts retries ep r (None, None) (posts st1) (pauses st1);
                 st2 = st1\<lparr>posts := k, pauses := ps\<rparr>
             in if truthy res then st2\<lparr>success_count := success_count st2 + 1\<rparr>
                else if err = Some ''Duplicate (skipped)''
                then st2\<lparr>skip_count := skip_count st2 + 1\<rparr>
                else st2\<lparr>error_count := error_count st2 + 1,
                         errors := errors st2 @ [error_line i r err]\<rparr>)"

definition start_run :: run where
  "start_run = \<lparr>success_count = 0, skip_count = 0, error_count = 0, errors = [],
                 posts = 0, pauses = []\<rparr>"

definition main :: "endpoint \<Rightarrow> int \<Rightarrow> row list \<Rightarrow> run" where
  \<comment> \<open>the loop of \<^verbatim>\<open>main\<close> over the rows read from the file, from \<^verbatim>\<open>start_from\<close>\<close>
  "main ep start_from rws = foldl (process_row ep start_from) start_run (enumerate 0 rws)"

section \<open>Sample rows and endpoints\<close>

text \<open>Concrete inputs, for evaluating the functions above.\<close>

definition refusing :: endpoint where
  \<comment> \<open>every POST fails in transport\<close>
  "refusing k req = Raised ''Connection refused''"

definition too_many :: reply where
  "too_many = \<lparr>success = Some False, rowCount = None, rows = None,
                error = Some ''Too many requests, please try again later.''\<rparr>"

definition inserted :: reply where
  "inserted = \<lparr>success = Some True, rowCount = Some 1,
                rows = Some [[(''id'', VInt 7), (''website'', VStr ''example.com'')]],
                error = None\<rparr>"

definition duplicate :: reply where
  "duplicate = \<lparr>success = Some True, rowCount = Some 0, rows = Some [], error = None\<rparr>"


definition busy_twice :: endpoint where
  \<comment> \<open>the first two POSTs are rate-limited, the later ones insert\<close>
  "busy_twice k req = (if k < 2 then Replied too_many else Replied inserted)"

definition example_row :: row where
  "example_row = [''Magazines'' \<mapsto> ''https://www.example.com/'', ''DA'' \<mapsto> ''55'',
                  ''Price'' \<mapsto> ''$75'']"

definition protocol_only_row :: row where
  "protocol_only_row = [''Magazines'' \<mapsto> ''https://'']"

definition blank_row :: row where
  "blank_row = [''Magazines'' \<mapsto> ''  '', ''DA'' \<mapsto> ''55'']"

definition zero_row :: row where
  "zero_row = [''Magazines'' \<mapsto> ''example.com'', ''New OT'' \<mapsto> ''0'', ''Price'' \<mapsto> ''$0.00'',
               ''Indexed'' \<mapsto> ''No'', ''Do Follow'' \<mapsto> ''No'']"

(*DEFS-END*)

section \<open>Evaluating the model on concrete inputs\<close>

text \<open>
  Rewrite rules that let the simplifier run the definitions on literals: floors of
  rational literals, bit lengths and decimal renderings of numerals, and the lists of
  definitions to unfold.
\<close>

lemma floor_rat_numeral_div [simp]: "\<lfloor>numeral a / numeral b :: rat\<rfloor> = numeral a div numeral b"
  using floor_divide_of_int_eq [of "numeral a" "numeral b", where ?'a = rat] by simp

lemma ceiling_rat_numeral_div [simp]:
  "\<lceil>numeral a / numeral b :: rat\<rceil> = - (- numeral a div numeral b)"
proof -
  have "\<lceil>numeral a / numeral b :: rat\<rceil> = - \<lfloor>- (numeral a / numeral b :: rat)\<rfloor>"
    by (simp add: ceiling_def)
  also have "- (numeral a / numeral b :: rat) = of_int (- numeral a) / of_int (numeral b)"
    by simp
  also have "\<lfloor>of_int (- numeral a) / of_int (numeral b) :: rat\<rfloor> = (- numeral a) div numeral b"
    by (rule floor_divide_of_int_eq)
  finally show ?thesis .
qed

lemma bit_length_0 [simp]: "bit_length 0 = 0"
  by (simp add: bit_length.simps)

lemma bit_length_1 [simp]: "bit_length 1 = 1"
  by (simp add: bit_length.simps)

lemma bit_length_Suc_0 [simp]: "bit_length (Suc 0) = 1"
  by (simp add: bit_length.simps)

lemma bit_length_Bit0 [simp]: "bit_length (numeral (Num.Bit0 k)) = 1 + bit_length (numeral k)"
  by (subst bit_length.simps) simp

lemma bit_length_Bit1 [simp]: "bit_length (numeral (Num.Bit1 k)) = 1 + bit_length (numeral k)"
  by (subst bit_length.simps) simp

lemma str_nat_digit: "n < 10 \<Longrightarrow> str_nat n = [digit_char n]"
  by (subst str_nat.simps) simp

lemma str_nat_more: "10 \<le> n \<Longrightarrow> str_nat n = str_nat (n div 10) @ [digit_char (n mod 10)]"
  by (subst str_nat.simps) simp

lemmas text_eval = strip_def is_space_def upper_def upper_char_def lower_def lower_char_def
  replace_char_def num_strip_def is_num_space_def is_digit_def digit_val_def digits_val_def
  is_exp_char_def str_nat_digit str_nat_more digit_char_def

lemmas float_eval = py_float_def floatnumber_def signed_digits_def py_int_def pow10_def pow2_def
  to_float_def round_double_def floor_log2_def round_half_even_def Let_def

lemmas field_eval = parse_int_def parse_price_def parse_traffic_def scaled_int_def
  parse_bool_def parse_dofollow_def clean_website_def re_sub_prefix_def rstrip_def
  row_get_def or_None_def

lemmas driver_eval = main_def process_row_def blank_website_def retries_def numeral_3_eq_3
  insert_website_def classify_def read_reply_def rate_limited_def contains_def truthy_def
  error_line_def start_run_def enumerate_eq_zip

section \<open>Properties of the field normalizers\<close>

subsection \<open>Helper facts about the string functions\<close>

lemma rstrip_no_trailing: "rstrip c s = [] \<or> last (rstrip c s) \<noteq> c"
proof (cases "dropWhile (\<lambda>x. x = c) (rev s)")
  case Nil
  then show ?thesis by (simp add: rstrip_def)
next
  case (Cons y ys)
  then have "y \<noteq> c" using hd_dropWhile [of "\<lambda>x. x = c" "rev s"] by auto
  with Cons show ?thesis by (simp add: rstrip_def)
qed

lemma rstrip_decomp: "\<exists>n. s = rstrip c s @ replicate n c"
proof -
  have "rev s = takeWhile (\<lambda>x. x = c) (rev s) @ dropWhile (\<lambda>x. x = c) (rev s)"
    by simp
  then have "s = rev (dropWhile (\<lambda>x. x = c) (rev s)) @ rev (takeWhile (\<lambda>x. x = c) (rev s))"
    by (metis rev_append rev_rev_ident)
  moreover have "rev (takeWhile (\<lambda>x. x = c) (rev s))
      = replicate (length (takeWhile (\<lambda>x. x = c) (rev s))) c"
  proof -
    have "\<forall>x \<in> set (rev (takeWhile (\<lambda>x. x = c) (rev s))). x = c"
      using set_takeWhileD by fastforce
    then show ?thesis
      by (metis length_rev replicate_eqI)
  qed
  ultimately show ?thesis unfolding rstrip_def by metis
qed



subsection \<open>clean_website\<close>

text \<open>
  C5, as the code has it. The pattern \<^verbatim>\<open>^https?://\<close> is compiled without the
  ignore-case flag, so only a lower-case protocol is cut off: after \<open>https://\<close> or
  \<open>http://\<close> the rest of the text is what goes on to the \<open>www.\<close> and slash steps, and
  a text that does not start with one of these two, letter for letter, keeps its start.
  \<open>https://www.Example.com/\<close> becomes \<open>Example.com\<close>.
\<close>

theorem clean_website_protocol_case_sensitive:
  "clean_website (''https://'' @ u) = Some (rstrip (CHR ''/'') (re_sub_prefix [''www.''] u))
   \<and> clean_website (''http://'' @ u) = Some (rstrip (CHR ''/'') (re_sub_prefix [''www.''] u))
   \<and> (url \<noteq> [] \<and> \<not> prefix ''https://'' url \<and> \<not> prefix ''http://'' url \<longrightarrow>
        clean_website url = Some (rstrip (CHR ''/'') (re_sub_prefix [''www.''] url)))
   \<and> clean_website ''https://www.Example.com/'' = Some ''Example.com''"
  by (simp add: clean_website_def re_sub_prefix_def rstrip_def)

theorem clean_website_protocol_case_sensitive_witness:
  "''HTTPS://www.Example.com/'' \<noteq> []
   \<and> \<not> prefix ''https://'' ''HTTPS://www.Example.com/''
   \<and> \<not> prefix ''http://'' ''HTTPS://www.Example.com/''
   \<and> clean_website ''HTTPS://www.Example.com/''
       = Some (rstrip (CHR ''/'') (re_sub_prefix [''www.''] ''HTTPS://www.Example.com/''))"
  using clean_website_protocol_case_sensitive [of "[]" "''HTTPS://www.Example.com/''"]
  by simp

text \<open>
  C5, as the specification states it, fails: an upper-case protocol is not removed, and
  the two spellings of the example do not normalize to the same website.
\<close>

theorem clean_website_upper_case_protocol_kept:
  "clean_website ''HTTPS://www.Example.com/'' = Some ''HTTPS://www.Example.com''
   \<and> clean_website ''HTTPS://www.Example.com/'' \<noteq> clean_website ''https://www.Example.com/''"
  by (simp add: clean_website_def re_sub_prefix_def rstrip_def)

text \<open>
  C6, as the code has it. \<^verbatim>\<open>url.rstrip('/')\<close> removes every trailing slash, not one:
  what \<open>clean_website\<close> returns never ends in a slash, and it is the text left by the
  protocol and \<open>www.\<close> steps with nothing but slashes taken off its end.
\<close>

theorem clean_website_strips_all_trailing_slashes:
  assumes "clean_website url = Some w"
  shows "(w = [] \<or> last w \<noteq> CHR ''/'')
       \<and> (\<exists>n. re_sub_prefix [''www.''] (re_sub_prefix [''https://'', ''http://''] url)
                 = w @ replicate n (CHR ''/''))"
proof -
  from assms have w: "w = rstrip (CHR ''/'')
      (re_sub_prefix [''www.''] (re_sub_prefix [''https://'', ''http://''] url))"
    by (auto simp: clean_website_def split: if_splits)
  show ?thesis unfolding w using rstrip_no_trailing rstrip_decomp by blast
qed

theorem clean_website_strips_all_trailing_slashes_witness:
  "clean_website ''https://www.example.com///'' = Some ''example.com''
   \<and> last ''example.com'' \<noteq> CHR ''/''"
proof -
  have h: "clean_website ''https://www.example.com///'' = Some ''example.com''"
    by (simp add: clean_website_def re_sub_prefix_def rstrip_def)
  show ?thesis using h clean_website_strips_all_trailing_slashes [OF h] by simp
qed

text \<open>
  C6, as the specification states it, fails: of two trailing slashes none is retained.
\<close>

theorem clean_website_two_slashes:
  "clean_website ''example.com//'' = Some ''example.com''"
  by (simp add: clean_website_def re_sub_prefix_def rstrip_def)

subsection \<open>parse_int\<close>




section \<open>Properties of the statement builder and the upsert client\<close>

subsection \<open>Helper facts\<close>

lemma blank_website_iff: "blank_website r \<longleftrightarrow> strip (row_get r ''Magazines'' []) = []"
  by (auto simp: blank_website_def row_get_def strip_def split: option.splits)

lemma insert_website_posts:
  assumes "clean_website (row_get r ''Magazines'' []) = Some w" and "w \<noteq> []"
  shows "insert_website ep k r = (classify (ep k (build_request (build_data w r))), Suc k)"
  using assms by (simp add: insert_website_def)

lemma zip_fields_values:
  "zip (fields_of d) (values_of d)
     = concat (map (\<lambda>(k, v). case v of None \<Rightarrow> [] | Some x \<Rightarrow> [(k, x)]) d)
   \<and> length (values_of d) = length (fields_of d)"
  by (induction d) (auto simp: fields_of_def values_of_def split: option.splits)

lemma fields_of_present: "k \<in> set (fields_of d) \<longleftrightarrow> (\<exists>v. (k, Some v) \<in> set d)"
  by (induction d) (auto simp: fields_of_def)

lemma fields_of_subseq: "subseq (fields_of d) (map fst d)"
  unfolding fields_of_def by (induction d) (auto)

lemma nth_fields_values:
  "i < length (fields_of d) \<Longrightarrow> (fields_of d ! i, Some (values_of d ! i)) \<in> set d"
proof -
  assume i: "i < length (fields_of d)"
  have len: "length (values_of d) = length (fields_of d)" using zip_fields_values by blast
  have "(fields_of d ! i, values_of d ! i) \<in> set (zip (fields_of d) (values_of d))"
    using i len by (metis in_set_conv_nth length_zip min.idem nth_zip)
  then have "(fields_of d ! i, values_of d ! i)
      \<in> set (concat (map (\<lambda>(k, v). case v of None \<Rightarrow> [] | Some x \<Rightarrow> [(k, x)]) d))"
    using zip_fields_values by metis
  then show ?thesis by (auto split: option.splits)
qed

lemma placeholders_upt: "placeholders n = map (\<lambda>i. ''$'' @ str_nat i) [1..<Suc n]"
proof -
  have "map (\<lambda>i. ''$'' @ str_nat i) [Suc 0..<Suc n] = map ((\<lambda>i. ''$'' @ str_nat i) \<circ> Suc) [0..<n]"
    by (simp only: map_Suc_upt [symmetric] map_map)
  then show ?thesis by (simp add: placeholders_def comp_def)
qed

lemma distinct_fields_of: "distinct (map fst d) \<Longrightarrow> distinct (fields_of d)"
  unfolding fields_of_def by (rule distinct_map_filter)

lemma distinct_build_data: "distinct (map fst (build_data w r))"
  by (simp add: build_data_def)

lemma example_row_website:
  "clean_website (row_get example_row ''Magazines'' []) = Some ''example.com''"
  by (simp add: example_row_def row_get_def clean_website_def re_sub_prefix_def rstrip_def)

lemma example_request:
  "build_request (build_data ''example.com'' example_row)
    = \<lparr>sql = ''INSERT INTO website_inventory (website, da, organic_traffic, client_price, is_indexed, do_follow, news, sponsored, cbd, casino, dating, crypto, status) VALUES ($1, $2, $3, $4, $5, $6, $7, $8, $9, $10, $11, $12, $13) ON CONFLICT (website) DO NOTHING RETURNING id, website'',
       params = [VStr ''example.com'', VInt 55, VInt 0, VFloat (Finite False 75),
         VBool False, VBool True, VBool False, VBool False, VBool False,
         VBool False, VBool False, VBool False, VStr ''active'']\<rparr>"
  by (simp add: build_request_def build_data_def fields_of_def values_of_def placeholders_def
      example_row_def text_eval float_eval field_eval)

lemma example_fields:
  "fields_of (build_data ''example.com'' example_row)
    = [''website'', ''da'', ''organic_traffic'', ''client_price'', ''is_indexed'', ''do_follow'',
       ''news'', ''sponsored'', ''cbd'', ''casino'', ''dating'', ''crypto'', ''status'']"
  by (simp add: build_data_def fields_of_def example_row_def text_eval float_eval field_eval)

subsection \<open>The statement\<close>

text \<open>
  C1. For a row with a website, \<open>insert_website\<close> posts the request built from the
  record \<open>build_data w r\<close>. Its column list holds exactly the fields whose value is
  present, each once and in the order of the record; the parameter list is as long as the
  column list and its \<open>i\<close>-th entry is the value of the \<open>i\<close>-th column; the statement
  lists these columns, then the placeholders \<open>$1\<close> to \<open>$n\<close> for the \<open>n\<close> columns, and
  ends with \<open>ON CONFLICT (website) DO NOTHING RETURNING id, website\<close>.
\<close>

theorem insert_statement_shape:
  assumes "clean_website (row_get r ''Magazines'' []) = Some w" and "w \<noteq> []"
  shows "insert_website ep k r = (classify (ep k (build_request (build_data w r))), Suc k)
    \<and> (\<forall>c. c \<in> set (fields_of (build_data w r)) \<longleftrightarrow> (\<exists>v. (c, Some v) \<in> set (build_data w r)))
    \<and> subseq (fields_of (build_data w r)) (map fst (build_data w r))
    \<and> distinct (fields_of (build_data w r))
    \<and> length (params (build_request (build_data w r))) = length (fields_of (build_data w r))
    \<and> (\<forall>i < length (fields_of (build_data w r)).
          (fields_of (build_data w r) ! i, Some (params (build_request (build_data w r)) ! i))
            \<in> set (build_data w r))
    \<and> sql (build_request (build_data w r))
        = ''INSERT INTO website_inventory ('' @ join '', '' (fields_of (build_data w r))
          @ '') VALUES (''
          @ join '', '' (map (\<lambda>i. ''$'' @ str_nat i) [1..<Suc (length (fields_of (build_data w r)))])
          @ '') ON CONFLICT (website) DO NOTHING RETURNING id, website''"
proof -
  let ?d = "build_data w r"
  have a: "insert_website ep k r = (classify (ep k (build_request ?d)), Suc k)"
    using assms by (rule insert_website_posts)
  have b: "\<forall>c. c \<in> set (fields_of ?d) \<longleftrightarrow> (\<exists>v. (c, Some v) \<in> set ?d)"
    using fields_of_present by blast
  have c: "subseq (fields_of ?d) (map fst ?d)" by (rule fields_of_subseq)
  have d: "distinct (fields_of ?d)" using distinct_build_data by (rule distinct_fields_of)
  have e: "length (params (build_request ?d)) = length (fields_of ?d)"
    using zip_fields_values by (simp add: build_request_def)
  have f: "\<forall>i < length (fields_of ?d).
      (fields_of ?d ! i, Some (params (build_request ?d) ! i)) \<in> set ?d"
    using nth_fields_values by (simp add: build_request_def)
  have g: "sql (build_request ?d)
        = ''INSERT INTO website_inventory ('' @ join '', '' (fields_of ?d)
          @ '') VALUES (''
          @ join '', '' (map (\<lambda>i. ''$'' @ str_nat i) [1..<Suc (length (fields_of ?d))])
          @ '') ON CONFLICT (website) DO NOTHING RETURNING id, website''"
    unfolding build_request_def placeholders_upt by simp
  from a b c d e f g show ?thesis by blast
qed

theorem insert_statement_shape_witness:
  "clean_website (row_get example_row ''Magazines'' []) = Some ''example.com''
   \<and> ''example.com'' \<noteq> []
   \<and> insert_website refusing 0 example_row = ((None, Some ''Connection refused''), 1)
   \<and> (1::nat) < length (fields_of (build_data ''example.com'' example_row))
   \<and> (''da'', Some (VInt 55)) \<in> set (build_data ''example.com'' example_row)
   \<and> ''contact'' \<notin> set (fields_of (build_data ''example.com'' example_row))
   \<and> sql (build_request (build_data ''example.com'' example_row))
      = ''INSERT INTO website_inventory (website, da, organic_traffic, client_price, is_indexed, do_follow, news, sponsored, cbd, casino, dating, crypto, status) VALUES ($1, $2, $3, $4, $5, $6, $7, $8, $9, $10, $11, $12, $13) ON CONFLICT (website) DO NOTHING RETURNING id, website''"
proof -
  have ne: "''example.com'' \<noteq> []" by simp
  note t = insert_statement_shape [OF example_row_website ne, of refusing 0]
  have a: "insert_website refusing 0 example_row = ((None, Some ''Connection refused''), 1)"
    using t by (simp add: refusing_def classify_def)
  have len: "(1::nat) < length (fields_of (build_data ''example.com'' example_row))"
    by (simp add: example_fields)
  have da: "(''da'', Some (VInt 55)) \<in> set (build_data ''example.com'' example_row)"
  proof -
    note f = t [THEN conjunct2, THEN conjunct2, THEN conjunct2, THEN conjunct2,
                THEN conjunct2, THEN conjunct1, rule_format]
    have "(fields_of (build_data ''example.com'' example_row) ! 1,
           Some (params (build_request (build_data ''example.com'' example_row)) ! 1))
            \<in> set (build_data ''example.com'' example_row)"
      using len by (rule f)
    then show ?thesis by (simp add: example_fields example_request)
  qed
  have nc: "''contact'' \<notin> set (fields_of (build_data ''example.com'' example_row))"
    by (simp add: example_fields)
  have q: "sql (build_request (build_data ''example.com'' example_row))
      = ''INSERT INTO website_inventory (website, da, organic_traffic, client_price, is_indexed, do_follow, news, sponsored, cbd, casino, dating, crypto, status) VALUES ($1, $2, $3, $4, $5, $6, $7, $8, $9, $10, $11, $12, $13) ON CONFLICT (website) DO NOTHING RETURNING id, website''"
    by (simp add: example_request)
  from example_row_website ne a len da nc q show ?thesis by blast
qed

subsection \<open>Reading the reply\<close>

text \<open>
  C2. For a row with a website, what \<open>insert_website\<close> returns is the classification
  of what the POST comes to, and every case is a returned pair, none an exception: an
  exception in transport or decoding gives a failure with its text; \<open>success\<close> true with
  a positive \<open>rowCount\<close> and a first row gives that row and no error; \<open>success\<close> true
  without a positive \<open>rowCount\<close> gives \<open>Duplicate (skipped)\<close>; \<open>success\<close> not true gives
  the reply's \<open>error\<close> text as it is (\<open>Unknown error\<close> when the reply has none); and a
  malformed reply, \<open>success\<close> true with a positive \<open>rowCount\<close> but no first row, gives a
  failure with the text of the lookup error.
\<close>

theorem insert_website_classifies_every_outcome:
  assumes "clean_website (row_get r ''Magazines'' []) = Some w" and "w \<noteq> []"
  shows "fst (insert_website ep k r) = classify (ep k (build_request (build_data w r)))
    \<and> classify (Raised e) = (None, Some e)
    \<and> (success rp = Some True \<and> rowCount rp = Some n \<and> 0 < n \<and> rows rp = Some (x # xs)
          \<longrightarrow> classify (Replied rp) = (Some x, None))
    \<and> (success rp = Some True \<and> (rowCount rp = None \<or> (\<exists>m. rowCount rp = Some m \<and> m \<le> 0))
          \<longrightarrow> classify (Replied rp) = (None, Some ''Duplicate (skipped)''))
    \<and> (success rp \<noteq> Some True
          \<longrightarrow> classify (Replied rp)
                = (None, Some (case error rp of None \<Rightarrow> ''Unknown error'' | Some t \<Rightarrow> t)))
    \<and> (success rp = Some True \<and> rowCount rp = Some n \<and> 0 < n \<and> rows rp = None
          \<longrightarrow> classify (Replied rp) = (None, Some ([CHR 0x27] @ ''rows'' @ [CHR 0x27])))
    \<and> (success rp = Some True \<and> rowCount rp = Some n \<and> 0 < n \<and> rows rp = Some []
          \<longrightarrow> classify (Replied rp) = (None, Some ''list index out of range''))"
  using assms by (auto simp: insert_website_def classify_def read_reply_def)

theorem insert_website_classifies_every_outcome_witness:
  "clean_website (row_get example_row ''Magazines'' []) = Some ''example.com''
   \<and> fst (insert_website busy_twice 2 example_row)
       = (Some [(''id'', VInt 7), (''website'', VStr ''example.com'')], None)
   \<and> fst (insert_website busy_twice 0 example_row)
       = (None, Some ''Too many requests, please try again later.'')
   \<and> fst (insert_website refusing 0 example_row) = (None, Some ''Connection refused'')
   \<and> classify (Replied duplicate) = (None, Some ''Duplicate (skipped)'')
   \<and> classify (Replied (inserted\<lparr>rows := None\<rparr>)) = (None, Some ([CHR 0x27] @ ''rows'' @ [CHR 0x27]))
   \<and> classify (Replied (inserted\<lparr>rows := Some []\<rparr>)) = (None, Some ''list index out of range'')"
proof -
  have w: "clean_website (row_get example_row ''Magazines'' []) = Some ''example.com''"
    by (simp add: example_row_def row_get_def clean_website_def re_sub_prefix_def rstrip_def)
  have ne: "''example.com'' \<noteq> []" by simp
  note t = insert_website_classifies_every_outcome [OF w ne]
  have a: "fst (insert_website busy_twice 2 example_row)
       = (Some [(''id'', VInt 7), (''website'', VStr ''example.com'')], None)"
    using t [of busy_twice 2 "[]" inserted 1 "[(''id'', VInt 7), (''website'', VStr ''example.com'')]" "[]"]
    by (simp add: busy_twice_def inserted_def)
  have b: "fst (insert_website busy_twice 0 example_row)
       = (None, Some ''Too many requests, please try again later.'')"
    using t [of busy_twice 0 "[]" too_many 1 "[]" "[]"]
    by (simp add: busy_twice_def too_many_def)
  have c: "fst (insert_website refusing 0 example_row) = (None, Some ''Connection refused'')"
    using t [of refusing 0 "''Connection refused''" too_many 1 "[]" "[]"]
    by (simp add: refusing_def)
  have d: "classify (Replied duplicate) = (None, Some ''Duplicate (skipped)'')"
    using t [of refusing 0 "[]" duplicate 0 "[]" "[]"]
    by (simp add: duplicate_def)
  have e: "classify (Replied (inserted\<lparr>rows := None\<rparr>)) = (None, Some ([CHR 0x27] @ ''rows'' @ [CHR 0x27]))"
    using t [of refusing 0 "[]" "inserted\<lparr>rows := None\<rparr>" 1 "[]" "[]"]
    by (simp add: inserted_def)
  have f: "classify (Replied (inserted\<lparr>rows := Some []\<rparr>)) = (None, Some ''list index out of range'')"
    using t [of refusing 0 "[]" "inserted\<lparr>rows := Some []\<rparr>" 1 "[]" "[]"]
    by (simp add: inserted_def)
  from w a b c d e f show ?thesis by blast
qed

subsection \<open>Fields that are always sent\<close>

lemma map_of_present:
  "distinct (map fst d) \<Longrightarrow>
   map_of (zip (fields_of d) (values_of d)) c
     = (case map_of d c of None \<Rightarrow> None | Some v \<Rightarrow> v)"
proof (induction d)
  case Nil
  then show ?case by (simp add: fields_of_def values_of_def)
next
  case (Cons kv d)
  obtain k v where kv: "kv = (k, v)" by (cases kv)
  from Cons have ih: "map_of (zip (fields_of d) (values_of d)) c
     = (case map_of d c of None \<Rightarrow> None | Some v \<Rightarrow> v)" by simp
  from Cons.prems kv have notin: "k \<notin> fst ` set d" by simp
  show ?case
  proof (cases v)
    case None
    have "map_of d k = None" using notin by (simp add: map_of_eq_None_iff)
    with None kv ih show ?thesis by (auto simp: fields_of_def values_of_def)
  next
    case (Some x)
    with kv ih show ?thesis by (auto simp: fields_of_def values_of_def)
  qed
qed

lemma build_data_value:
  "map_of (zip (fields_of (build_data w r)) (values_of (build_data w r))) c
     = (case map_of (build_data w r) c of None \<Rightarrow> None | Some v \<Rightarrow> v)"
  using distinct_build_data by (rule map_of_present)

lemma build_data_fields:
  "fields_of (build_data w r)
    = ''website''
      # (if strip (row_get r ''Contact'' []) = [] then [] else [''contact''])
      @ (if strip (row_get r ''Category/Section'' []) = [] then [] else [''category''])
      @ (if parse_int (row_get r ''DA'' []) = None then [] else [''da''])
      @ (if parse_int (row_get r ''AS'' []) = None then [] else [''domain_rating''])
      @ [''organic_traffic'', ''client_price'', ''is_indexed'', ''do_follow'', ''news'',
         ''sponsored'', ''cbd'', ''casino'', ''dating'', ''crypto'']
      @ (if parse_int (row_get r ''TAT'' []) = None then [] else [''tat''])
      @ [''status'']"
  by (simp add: build_data_def fields_of_def or_None_def)

lemma zero_row_request:
  "build_request (build_data ''example.com'' zero_row)
    = \<lparr>sql = ''INSERT INTO website_inventory (website, organic_traffic, client_price, is_indexed, do_follow, news, sponsored, cbd, casino, dating, crypto, status) VALUES ($1, $2, $3, $4, $5, $6, $7, $8, $9, $10, $11, $12) ON CONFLICT (website) DO NOTHING RETURNING id, website'',
       params = [VStr ''example.com'', VInt 0, VFloat (Finite False 0),
         VBool False, VBool False, VBool False, VBool False, VBool False,
         VBool False, VBool False, VBool False, VStr ''active'']\<rparr>"
  by (simp add: build_request_def build_data_def fields_of_def values_of_def placeholders_def
      zero_row_def text_eval float_eval field_eval)

text \<open>
  C10. In the record built from any row, the twelve fields \<open>website\<close>,
  \<open>organic_traffic\<close>, \<open>client_price\<close>, \<open>is_indexed\<close>, \<open>do_follow\<close>, \<open>news\<close>,
  \<open>sponsored\<close>, \<open>cbd\<close>, \<open>casino\<close>, \<open>dating\<close>, \<open>crypto\<close> and \<open>status\<close> are always in
  the column list, and the parameter sent for each is what its normalizer returned,
  whatever that value is (\<open>0\<close>, \<open>0.0\<close> and \<open>False\<close> included). No other column than
  \<open>contact\<close>, \<open>category\<close>, \<open>da\<close>, \<open>domain_rating\<close> and \<open>tat\<close> can be left out, and each
  of these five is left out exactly when its value is absent.
\<close>

theorem always_included_fields:
  "set [''website'', ''organic_traffic'', ''client_price'', ''is_indexed'', ''do_follow'',
        ''news'', ''sponsored'', ''cbd'', ''casino'', ''dating'', ''crypto'', ''status'']
     \<subseteq> set (fields_of (build_data w r))
   \<and> set (fields_of (build_data w r))
     \<subseteq> set [''website'', ''organic_traffic'', ''client_price'', ''is_indexed'', ''do_follow'',
            ''news'', ''sponsored'', ''cbd'', ''casino'', ''dating'', ''crypto'', ''status'']
       \<union> set [''contact'', ''category'', ''da'', ''domain_rating'', ''tat'']
   \<and> (''contact'' \<in> set (fields_of (build_data w r)) \<longleftrightarrow> strip (row_get r ''Contact'' []) \<noteq> [])
   \<and> (''category'' \<in> set (fields_of (build_data w r))
        \<longleftrightarrow> strip (row_get r ''Category/Section'' []) \<noteq> [])
   \<and> (''da'' \<in> set (fields_of (build_data w r)) \<longleftrightarrow> parse_int (row_get r ''DA'' []) \<noteq> None)
   \<and> (''domain_rating'' \<in> set (fields_of (build_data w r))
        \<longleftrightarrow> parse_int (row_get r ''AS'' []) \<noteq> None)
   \<and> (''tat'' \<in> set (fields_of (build_data w r)) \<longleftrightarrow> parse_int (row_get r ''TAT'' []) \<noteq> None)
   \<and> map (map_of (zip (fields_of (build_data w r)) (values_of (build_data w r))))
        [''website'', ''organic_traffic'', ''client_price'', ''is_indexed'', ''do_follow'',
         ''news'', ''sponsored'', ''cbd'', ''casino'', ''dating'', ''crypto'', ''status'']
      = [Some (VStr w),
         Some (VInt (parse_traffic (row_get r ''New OT'' []))),
         Some (parse_price (row_get r ''Price'' [])),
         Some (VBool (parse_bool (row_get r ''Indexed'' []))),
         Some (VBool (parse_dofollow (row_get r ''Do Follow'' []))),
         Some (VBool (parse_bool (row_get r ''News'' []))),
         Some (VBool (parse_bool (row_get r ''Sponsored'' []))),
         Some (VBool (parse_bool (row_get r ''CBD'' []))),
         Some (VBool (parse_bool (row_get r ''Casino'' []))),
         Some (VBool (parse_bool (row_get r ''Dating'' []))),
         Some (VBool (parse_bool (row_get r ''Crypto'' []))),
         Some (VStr ''active'')]"
proof -
  have a: "set [''website'', ''organic_traffic'', ''client_price'', ''is_indexed'', ''do_follow'',
        ''news'', ''sponsored'', ''cbd'', ''casino'', ''dating'', ''crypto'', ''status'']
     \<subseteq> set (fields_of (build_data w r))"
    by (simp add: build_data_fields)
  have b: "set (fields_of (build_data w r))
     \<subseteq> set [''website'', ''organic_traffic'', ''client_price'', ''is_indexed'', ''do_follow'',
            ''news'', ''sponsored'', ''cbd'', ''casino'', ''dating'', ''crypto'', ''status'']
       \<union> set [''contact'', ''category'', ''da'', ''domain_rating'', ''tat'']"
    by (simp add: build_data_fields)
  have c: "''contact'' \<in> set (fields_of (build_data w r)) \<longleftrightarrow> strip (row_get r ''Contact'' []) \<noteq> []"
    by (simp add: build_data_fields)
  have d: "''category'' \<in> set (fields_of (build_data w r))
        \<longleftrightarrow> strip (row_get r ''Category/Section'' []) \<noteq> []"
    by (simp add: build_data_fields)
  have e: "''da'' \<in> set (fields_of (build_data w r)) \<longleftrightarrow> parse_int (row_get r ''DA'' []) \<noteq> None"
    by (simp add: build_data_fields)
  have f: "''domain_rating'' \<in> set (fields_of (build_data w r))
        \<longleftrightarrow> parse_int (row_get r ''AS'' []) \<noteq> None"
    by (simp add: build_data_fields)
  have g: "''tat'' \<in> set (fields_of (build_data w r)) \<longleftrightarrow> parse_int (row_get r ''TAT'' []) \<noteq> None"
    by (simp add: build_data_fields)
  have h: "map (map_of (zip (fields_of (build_data w r)) (values_of (build_data w r))))
        [''website'', ''organic_traffic'', ''client_price'', ''is_indexed'', ''do_follow'',
         ''news'', ''sponsored'', ''cbd'', ''casino'', ''dating'', ''crypto'', ''status'']
      = [Some (VStr w),
         Some (VInt (parse_traffic (row_get r ''New OT'' []))),
         Some (parse_price (row_get r ''Price'' [])),
         Some (VBool (parse_bool (row_get r ''Indexed'' []))),
         Some (VBool (parse_dofollow (row_get r ''Do Follow'' []))),
         Some (VBool (parse_bool (row_get r ''News'' []))),
         Some (VBool (parse_bool (row_get r ''Sponsored'' []))),
         Some (VBool (parse_bool (row_get r ''CBD'' []))),
         Some (VBool (parse_bool (row_get r ''Casino'' []))),
         Some (VBool (parse_bool (row_get r ''Dating'' []))),
         Some (VBool (parse_bool (row_get r ''Crypto'' []))),
         Some (VStr ''active'')]"
    unfolding build_data_value by (simp add: build_data_def)
  from a b c d e f g h show ?thesis by blast
qed

theorem always_included_fields_witness:
  "fields_of (build_data ''example.com'' zero_row)
     = [''website'', ''organic_traffic'', ''client_price'', ''is_indexed'', ''do_follow'',
        ''news'', ''sponsored'', ''cbd'', ''casino'', ''dating'', ''crypto'', ''status'']
   \<and> values_of (build_data ''example.com'' zero_row)
     = [VStr ''example.com'', VInt 0, VFloat (Finite False 0),
         VBool False, VBool False, VBool False, VBool False, VBool False,
         VBool False, VBool False, VBool False, VStr ''active'']
   \<and> ''contact'' \<notin> set (fields_of (build_data ''example.com'' zero_row))
   \<and> ''tat'' \<notin> set (fields_of (build_data ''example.com'' zero_row))"
proof -
  have f: "fields_of (build_data ''example.com'' zero_row)
     = [''website'', ''organic_traffic'', ''client_price'', ''is_indexed'', ''do_follow'',
        ''news'', ''sponsored'', ''cbd'', ''casino'', ''dating'', ''crypto'', ''status'']"
    by (simp add: build_data_def fields_of_def zero_row_def text_eval float_eval field_eval)
  have v: "values_of (build_data ''example.com'' zero_row)
     = [VStr ''example.com'', VInt 0, VFloat (Finite False 0),
         VBool False, VBool False, VBool False, VBool False, VBool False,
         VBool False, VBool False, VBool False, VStr ''active'']"
    using zero_row_request by (simp add: build_request_def)
  have c: "''contact'' \<notin> set (fields_of (build_data ''example.com'' zero_row))"
    using always_included_fields [of "''example.com''" zero_row]
    by (simp add: zero_row_def row_get_def strip_def)
  have t: "''tat'' \<notin> set (fields_of (build_data ''example.com'' zero_row))"
    using always_included_fields [of "''example.com''" zero_row]
    by (simp add: zero_row_def row_get_def parse_int_def)
  from f v c t show ?thesis by blast
qed

section \<open>Properties of the submission driver\<close>

subsection \<open>Rows without a website\<close>

text \<open>
  C4, as the code has it. A row at or after the resume offset whose website cell is
  blank (missing, empty or white space only) is counted as skipped: the skip counter
  goes up by one, nothing is posted and no error is recorded.
\<close>

theorem blank_website_row_skipped:
  assumes "start_from \<le> int i" and "strip (row_get r ''Magazines'' []) = []"
  shows "skip_count (process_row ep start_from st (i, r)) = skip_count st + 1
       \<and> error_count (process_row ep start_from st (i, r)) = error_count st
       \<and> success_count (process_row ep start_from st (i, r)) = success_count st
       \<and> errors (process_row ep start_from st (i, r)) = errors st
       \<and> posts (process_row ep start_from st (i, r)) = posts st"
  using assms by (simp add: process_row_def blank_website_iff)

theorem blank_website_row_skipped_witness:
  "(0::int) \<le> int 0 \<and> strip (row_get blank_row ''Magazines'' []) = []
   \<and> skip_count (process_row refusing 0 start_run (0, blank_row)) = 1
   \<and> error_count (process_row refusing 0 start_run (0, blank_row)) = 0"
proof -
  have h: "strip (row_get blank_row ''Magazines'' []) = []"
    by (simp add: blank_row_def row_get_def strip_def is_space_def)
  have z: "(0::int) \<le> int 0" by simp
  show ?thesis
    using h blank_website_row_skipped [OF z h, of refusing start_run]
    by (simp add: start_run_def)
qed

text \<open>
  C4, as the specification states it, fails for a website cell that is not blank but
  normalizes to nothing: the cell \<open>https://\<close> passes the driver's blank test,
  \<open>insert_website\<close> answers \<open>No website URL\<close> without a POST, and the driver counts
  the row as an error.
\<close>

theorem protocol_only_row_counted_as_error:
  "strip (row_get protocol_only_row ''Magazines'' []) \<noteq> []
   \<and> clean_website (row_get protocol_only_row ''Magazines'' []) = Some []
   \<and> skip_count (main refusing 0 [protocol_only_row]) = 0
   \<and> error_count (main refusing 0 [protocol_only_row]) = 1
   \<and> errors (main refusing 0 [protocol_only_row]) = [''Row 1 (https://): No website URL'']"
  by (simp add: driver_eval refusing_def protocol_only_row_def text_eval field_eval)

subsection \<open>The three counters\<close>








subsection \<open>Retrying a rate-limited row\<close>













end
